theory Spec2Isabelle
  imports Complex_Main "HOL-Library.Sublist" "HOL-Library.Log_Nat"
begin

section \<open>The prompt processor of \<open>threestudio/models/prompt.py\<close>\<close>

text \<open>
  The module resolves a text prompt (possibly through a prompt library), encodes it with an
  external text encoder, builds a table of four camera directions with one prompt string
  each, and at call time picks one row of precomputed embeddings per sample of a batch of
  camera poses.

  Modelling decisions:
  \<^item> Python strings are \<open>string\<close>, read as their UTF-8 encoding: \<open>startswith\<close>, the slice
    after the four characters of \<open>lib:\<close>, \<open>split\<close> at the underscore and the substring test
    \<open>in\<close> give the same result on the encoding as on the code points.
  \<^item> \<open>str.lower\<close> is a builtin of the language, with the case tables of Unicode behind
    it. It is not modelled: it is the parameter \<open>lower\<close> of every function that calls it, and
    every theorem holds for every function \<open>lower\<close>.
  \<^item> A one-dimensional float tensor is a record of its entries, which are finite numbers
    (\<open>real\<close>), and of what its dtype makes of a Python number that is compared with it:
    torch converts the number to the dtype of the tensor before it compares, so a float32
    tensor compares with the number rounded to float32. That conversion is the field
    \<open>of_scalar\<close> of the tensor; every theorem holds for every such function. Infinite
    entries and NaN are outside the model.
  \<^item> The thresholds of the configuration are Python numbers (\<open>real\<close>). The sums
    \<open>180 - back_threshold\<close> and \<open>-180 + back_threshold\<close> are computed by Python before
    torch sees them; the rounding of their exact value is the parameter \<open>rnd\<close>, and every
    theorem holds for every function \<open>rnd\<close>.
  \<^item> An embedding tensor of shape \<open>[N, ...]\<close> is a list of \<open>N\<close> rows of an arbitrary type
    \<open>'e\<close>. The text encoder is external: it is the parameter \<open>enc\<close>, one row per string.
  \<^item> Every \<open>raise\<close> of the source and every indexing error of the tensor operations is a
    value of the type \<open>error\<close>. Failures of the collaborators (loading the encoder, reading
    the library file, encoding) are not modelled: what is proved of \<open>configure\<close> is proved
    of the runs in which it returns an object.
\<close>

subsection \<open>Errors\<close>

datatype error =
    MultiplePromptsMatched "string list"
      \<comment> \<open>\<open>ValueError("Multiple prompts matched with keywords ... in library")\<close>\<close>
  | CannotFindPrompt "string list"
      \<comment> \<open>\<open>ValueError("Cannot find prompt with keywords ... in library")\<close>\<close>
  | KeyError string
      \<comment> \<open>a dictionary is read at a key it does not have\<close>
  | MaskShapeMismatch
      \<comment> \<open>\<open>IndexError\<close>: a boolean mask whose shape is not the indexed tensor's\<close>
  | IndexOutOfRange
      \<comment> \<open>\<open>IndexError\<close>: an index tensor with an entry beyond the indexed axis\<close>
  | ExpandSizeMismatch
      \<comment> \<open>\<open>RuntimeError\<close>: \<open>expand\<close> of an axis that is neither 1 nor the target size\<close>

subsection \<open>Configuration, tensors and state\<close>

record Config =
  prompt :: string
  negative_prompt :: string
  pretrained_model_name_or_path :: string
  view_dependent_prompting :: bool
  overhead_threshold :: real
  front_threshold :: real
  back_threshold :: real
  view_dependent_prompt_front :: bool

text \<open>
  A float tensor of shape \<open>[B]\<close>: its \<open>B\<close> entries, and the conversion of a Python number
  to its dtype, which torch applies to the number in \<open>tensor > number\<close> and
  \<open>tensor < number\<close>.
\<close>

record tensor =
  entries :: "real list"
  of_scalar :: "real \<Rightarrow> real"

text \<open>
  The fields of \<open>DirectionConfig\<close> are \<open>name\<close>, \<open>prompt\<close>, \<open>negative_prompt\<close> and
  \<open>condition\<close> in the source; the first three carry the prefix \<open>d_\<close> here, since \<open>prompt\<close>
  and \<open>negative_prompt\<close> are fields of \<open>Config\<close> too.
\<close>

record DirectionConfig =
  d_name :: string
  d_prompt :: string
  d_negative_prompt :: string
  condition :: "tensor \<Rightarrow> tensor \<Rightarrow> tensor \<Rightarrow> bool list"

text \<open>
  The attributes of the object that \<open>configure\<close> sets. \<open>self.prompt\<close> and
  \<open>self.negative_prompt\<close> are \<open>self_prompt\<close> and \<open>self_negative_prompt\<close>.
\<close>

record 'e PromptProcessor =
  cfg :: Config
  prompt_library :: "string \<rightharpoonup> string list"
  self_prompt :: string
  self_negative_prompt :: string
  text_embeddings :: "'e list"
  uncond_text_embeddings :: "'e list"
  directions :: "DirectionConfig list"
  direction2idx :: "string \<rightharpoonup> nat"
  text_embeddings_vd :: "'e list"
  uncond_text_embeddings_vd :: "'e list"

subsection \<open>String operations of the resolver\<close>

text \<open>
  \<open>s.split(sep)\<close> for a one-character separator: the pieces between the occurrences of
  the separator, empty pieces included, so that \<open>"".split("_")\<close> is \<open>[""]\<close>.
\<close>

fun split :: "char \<Rightarrow> string \<Rightarrow> string list" where
  "split sep [] = [[]]"
| "split sep (c # cs) =
     (if c = sep then [] # split sep cs
      else (case split sep cs of
              [] \<Rightarrow> [[c]]
            | w # ws \<Rightarrow> (c # w) # ws))"

text \<open>\<open>k in s\<close> on strings is \<^const>\<open>sublist\<close>; \<open>s.startswith(p)\<close> is \<^const>\<open>prefix\<close>.\<close>

subsection \<open>The prompt resolver: \<open>preprocess_prompt\<close>\<close>

text \<open>
  The loop over \<open>self.prompt_library["dreamfusion"]\<close>, with the local variable
  \<open>candidate\<close> as the accumulator. The first argument is \<open>str.lower\<close>.
\<close>

fun find_candidate ::
  "(string \<Rightarrow> string) \<Rightarrow> string list \<Rightarrow> string list \<Rightarrow> string option \<Rightarrow>
   error + string option" where
  "find_candidate lower keywords [] candidate = Inr candidate"
| "find_candidate lower keywords (p # ps) candidate =
     (if list_all (\<lambda>k. sublist k (lower p)) keywords then
        (case candidate of
           Some c \<Rightarrow> Inl (MultiplePromptsMatched keywords)
         | None \<Rightarrow> find_candidate lower keywords ps (Some p))
      else find_candidate lower keywords ps candidate)"

definition preprocess_prompt ::
  "(string \<Rightarrow> string) \<Rightarrow> (string \<rightharpoonup> string list) \<Rightarrow> string \<Rightarrow> error + string" where
  "preprocess_prompt lower library p =
     (if prefix ''lib:'' p then
        (let keywords = split (CHR ''_'') (lower (drop 4 p)) in
         case library ''dreamfusion'' of
           None \<Rightarrow> Inl (KeyError ''dreamfusion'')
         | Some ps \<Rightarrow>
             (case find_candidate lower keywords ps None of
                Inl e \<Rightarrow> Inl e
              | Inr None \<Rightarrow> Inl (CannotFindPrompt keywords)
              | Inr (Some candidate) \<Rightarrow> Inr candidate))
      else Inr p)"

subsection \<open>The text encoder\<close>

text \<open>
  \<open>get_text_embeddings\<close> is abstract in \<open>PromptProcessor\<close>; both subclasses hand the two
  lists of strings to an external pretrained encoder, which pads every string to a fixed
  length and returns one row per string. The encoder is the parameter \<open>enc\<close>.
\<close>

definition get_text_embeddings ::
  "(string \<Rightarrow> 'e) \<Rightarrow> string list \<Rightarrow> string list \<Rightarrow> 'e list \<times> 'e list" where
  "get_text_embeddings enc prompts negative_prompts = (map enc prompts, map enc negative_prompts)"

subsection \<open>The direction table\<close>

text \<open>
  The four \<open>lambda ele, azi, dis\<close> of the table. Each comparison is between the entries of
  a tensor and a Python number, which torch first converts to the dtype of that tensor.
  In \<open>back\<close> the number is itself the result of a Python sum, rounded by \<open>rnd\<close>.
\<close>

definition side_condition :: "tensor \<Rightarrow> tensor \<Rightarrow> tensor \<Rightarrow> bool list" where
  "side_condition ele azi dis = replicate (length (entries ele)) True"

definition front_condition :: "Config \<Rightarrow> tensor \<Rightarrow> tensor \<Rightarrow> tensor \<Rightarrow> bool list" where
  "front_condition c ele azi dis =
     map (\<lambda>a. a > of_scalar azi (- front_threshold c) \<and> a < of_scalar azi (front_threshold c))
       (entries azi)"

definition back_condition ::
  "(real \<Rightarrow> real) \<Rightarrow> Config \<Rightarrow> tensor \<Rightarrow> tensor \<Rightarrow> tensor \<Rightarrow> bool list" where
  "back_condition rnd c ele azi dis =
     map (\<lambda>a. a > of_scalar azi (rnd (180 - back_threshold c)) \<or>
              a < of_scalar azi (rnd (- 180 + back_threshold c)))
       (entries azi)"

definition overhead_condition :: "Config \<Rightarrow> tensor \<Rightarrow> tensor \<Rightarrow> tensor \<Rightarrow> bool list" where
  "overhead_condition c ele azi dis =
     map (\<lambda>e. e > of_scalar ele (overhead_threshold c)) (entries ele)"

text \<open>The table of the branch \<open>if self.cfg.view_dependent_prompt_front\<close>.\<close>

definition directions_front :: "(real \<Rightarrow> real) \<Rightarrow> Config \<Rightarrow> DirectionConfig list" where
  "directions_front rnd c =
     [\<lparr>d_name = ''side'', d_prompt = ''side view of '', d_negative_prompt = '''',
        condition = side_condition\<rparr>,
      \<lparr>d_name = ''front'', d_prompt = ''front view of '', d_negative_prompt = '''',
        condition = front_condition c\<rparr>,
      \<lparr>d_name = ''back'', d_prompt = ''backside view of '', d_negative_prompt = '''',
        condition = back_condition rnd c\<rparr>,
      \<lparr>d_name = ''overhead'', d_prompt = ''overhead view of '', d_negative_prompt = '''',
        condition = overhead_condition c\<rparr>]"

text \<open>The table of the \<open>else\<close> branch.\<close>

definition directions_suffix :: "(real \<Rightarrow> real) \<Rightarrow> Config \<Rightarrow> DirectionConfig list" where
  "directions_suffix rnd c =
     [\<lparr>d_name = ''side'', d_prompt = '', side view'', d_negative_prompt = '''',
        condition = side_condition\<rparr>,
      \<lparr>d_name = ''front'', d_prompt = '', front view'', d_negative_prompt = '''',
        condition = front_condition c\<rparr>,
      \<lparr>d_name = ''back'', d_prompt = '', back view'', d_negative_prompt = '''',
        condition = back_condition rnd c\<rparr>,
      \<lparr>d_name = ''overhead'', d_prompt = '', overhead view'', d_negative_prompt = '''',
        condition = overhead_condition c\<rparr>]"

text \<open>
  \<open>{d.name: i for i, d in enumerate(self.directions)}\<close>: the entries are stored in list
  order, a later entry replacing an earlier one of the same name.
\<close>

definition make_direction2idx :: "DirectionConfig list \<Rightarrow> (string \<rightharpoonup> nat)" where
  "make_direction2idx ds = fold (\<lambda>(i, d) m. m(d_name d \<mapsto> i)) (enumerate 0 ds) Map.empty"

subsection \<open>\<open>configure\<close>\<close>

text \<open>
  The prompt library is the value that \<open>json.load\<close> returned. The strings handed to the
  encoder are the f-strings of the source: \<open>f"{d.prompt} {self.cfg.prompt} "\<close> in the first
  branch, \<open>f"{self.prompt} {d.prompt}"\<close> in the second. The first three arguments are the
  collaborators: \<open>str.lower\<close>, the rounding of Python's float arithmetic, the encoder.
\<close>

definition configure ::
  "(string \<Rightarrow> string) \<Rightarrow> (real \<Rightarrow> real) \<Rightarrow> (string \<Rightarrow> 'e) \<Rightarrow> Config \<Rightarrow>
   (string \<rightharpoonup> string list) \<Rightarrow> error + 'e PromptProcessor" where
  "configure lower rnd enc c library =
     (case preprocess_prompt lower library (prompt c) of
        Inl e \<Rightarrow> Inl e
      | Inr p \<Rightarrow>
          (let np = negative_prompt c;
               (te, ute) = get_text_embeddings enc [p] [np];
               ds = (if view_dependent_prompt_front c then directions_front rnd c
                     else directions_suffix rnd c);
               d2i = make_direction2idx ds;
               (te_vd, ute_vd) =
                 (if view_dependent_prompt_front c then
                    get_text_embeddings enc
                      (map (\<lambda>d. d_prompt d @ '' '' @ prompt c @ '' '') ds)
                      (map (\<lambda>d. d_negative_prompt d @ '' '' @ negative_prompt c) ds)
                  else
                    get_text_embeddings enc
                      (map (\<lambda>d. p @ '' '' @ d_prompt d) ds)
                      (map (\<lambda>d. np @ '' '' @ d_negative_prompt d) ds))
           in Inr \<lparr>cfg = c, prompt_library = library, self_prompt = p,
                   self_negative_prompt = np, text_embeddings = te,
                   uncond_text_embeddings = ute, directions = ds, direction2idx = d2i,
                   text_embeddings_vd = te_vd, uncond_text_embeddings_vd = ute_vd\<rparr>))"

subsection \<open>\<open>__call__\<close>\<close>

text \<open>
  \<open>direction_idx[mask] = v\<close>: the mask must have the shape of \<open>direction_idx\<close>; the entries
  under a true mask bit become \<open>v\<close>.
\<close>

definition masked_assign :: "nat list \<Rightarrow> bool list \<Rightarrow> nat \<Rightarrow> error + nat list" where
  "masked_assign idx msk v =
     (if length msk \<noteq> length idx then Inl MaskShapeMismatch
      else Inr (map2 (\<lambda>m x. if m then v else x) msk idx))"

text \<open>
  The loop \<open>for d in self.directions\<close>. The right-hand side \<open>self.direction2idx[d.name]\<close>
  is evaluated before the assignment.
\<close>

fun direction_loop ::
  "(string \<rightharpoonup> nat) \<Rightarrow> DirectionConfig list \<Rightarrow> tensor \<Rightarrow> tensor \<Rightarrow> tensor \<Rightarrow>
   nat list \<Rightarrow> error + nat list" where
  "direction_loop d2i [] ele azi dis idx = Inr idx"
| "direction_loop d2i (d # ds) ele azi dis idx =
     (case d2i (d_name d) of
        None \<Rightarrow> Inl (KeyError (d_name d))
      | Some v \<Rightarrow>
          (case masked_assign idx (condition d ele azi dis) v of
             Inl e \<Rightarrow> Inl e
           | Inr idx' \<Rightarrow> direction_loop d2i ds ele azi dis idx'))"

text \<open>
  The per-sample direction index of the view-dependent branch, starting from
  \<open>torch.zeros_like(elevation, dtype=torch.long)\<close>.
\<close>

definition direction_idx ::
  "'e PromptProcessor \<Rightarrow> tensor \<Rightarrow> tensor \<Rightarrow> tensor \<Rightarrow> error + nat list" where
  "direction_idx self ele azi dis =
     direction_loop (direction2idx self) (directions self) ele azi dis
       (replicate (length (entries ele)) 0)"

text \<open>\<open>rows[idx]\<close> with an index tensor: one row per index, each index within the axis.\<close>

definition gather :: "'e list \<Rightarrow> nat list \<Rightarrow> error + 'e list" where
  "gather rows idx =
     (if list_all (\<lambda>i. i < length rows) idx then Inr (map (\<lambda>i. rows ! i) idx)
      else Inl IndexOutOfRange)"

text \<open>
  \<open>rows.expand(n, -1, -1)\<close>: an axis of size 1 is repeated \<open>n\<close> times, an axis of size \<open>n\<close>
  stays, any other size is an error.
\<close>

definition expand :: "'e list \<Rightarrow> nat \<Rightarrow> error + 'e list" where
  "expand rows n =
     (case rows of
        [r] \<Rightarrow> Inr (replicate n r)
      | _ \<Rightarrow> if length rows = n then Inr rows else Inl ExpandSizeMismatch)"

text \<open>
  The two local tensors \<open>text_embeddings\<close> and \<open>uncond_text_embeddings\<close> of \<open>__call__\<close>,
  before they are concatenated. \<open>batch_size\<close> is \<open>elevation.shape[0]\<close>.
\<close>

definition call_embeddings ::
  "'e PromptProcessor \<Rightarrow> tensor \<Rightarrow> tensor \<Rightarrow> tensor \<Rightarrow> error + ('e list \<times> 'e list)" where
  "call_embeddings self ele azi dis =
     (let batch_size = length (entries ele) in
      if view_dependent_prompting (cfg self) then
        (case direction_idx self ele azi dis of
           Inl e \<Rightarrow> Inl e
         | Inr idx \<Rightarrow>
             (case gather (text_embeddings_vd self) idx of
                Inl e \<Rightarrow> Inl e
              | Inr te \<Rightarrow>
                  (case gather (uncond_text_embeddings_vd self) idx of
                     Inl e \<Rightarrow> Inl e
                   | Inr ute \<Rightarrow> Inr (te, ute))))
      else
        (case expand (text_embeddings self) batch_size of
           Inl e \<Rightarrow> Inl e
         | Inr te \<Rightarrow>
             (case expand (uncond_text_embeddings self) batch_size of
                Inl e \<Rightarrow> Inl e
              | Inr ute \<Rightarrow> Inr (te, ute))))"

text \<open>\<open>__call__\<close>: \<open>torch.cat([text_embeddings, uncond_text_embeddings], dim=0)\<close>.\<close>

definition call ::
  "'e PromptProcessor \<Rightarrow> tensor \<Rightarrow> tensor \<Rightarrow> tensor \<Rightarrow> error + 'e list" where
  "call self ele azi dis =
     (case call_embeddings self ele azi dis of
        Inl e \<Rightarrow> Inl e
      | Inr (te, ute) \<Rightarrow> Inr (te @ ute))"

text \<open>
  The life of a configured object: a sequence of calls. \<open>__call__\<close> assigns no attribute of
  \<open>self\<close> and its tensor operations build new tensors, so each call hands the object on as
  it found it, beside its result.
\<close>

definition call_step ::
  "'e PromptProcessor \<Rightarrow> tensor \<times> tensor \<times> tensor \<Rightarrow>
   'e PromptProcessor \<times> (error + 'e list)" where
  "call_step self batch =
     (case batch of (ele, azi, dis) \<Rightarrow> (self, call self ele azi dis))"

fun run_calls ::
  "'e PromptProcessor \<Rightarrow> (tensor \<times> tensor \<times> tensor) list \<Rightarrow> 'e PromptProcessor" where
  "run_calls self [] = self"
| "run_calls self (b # bs) = run_calls (fst (call_step self b)) bs"

subsection \<open>The closed form of the direction loop\<close>

text \<open>
  Not a function of the source: the direction that the loop of \<open>__call__\<close> leaves for one
  sample, written as one expression. The loop overwrites in table order, so the last
  direction whose condition holds wins: \<open>overhead\<close> (row 3) before \<open>back\<close> (row 2) before
  \<open>front\<close> (row 1), and \<open>side\<close> (row 0) otherwise. \<open>ce\<close> and \<open>ca\<close> are the conversions of the
  elevation and of the azimuth tensor. The lemma \<open>direction_idx_configured\<close> below proves
  that the loop computes it.
\<close>

definition direction_of_pose ::
  "(real \<Rightarrow> real) \<Rightarrow> Config \<Rightarrow> (real \<Rightarrow> real) \<Rightarrow> (real \<Rightarrow> real) \<Rightarrow> real \<Rightarrow> real \<Rightarrow> nat" where
  "direction_of_pose rnd c ce ca e a =
     (if e > ce (overhead_threshold c) then 3
      else if a > ca (rnd (180 - back_threshold c)) \<or> a < ca (rnd (- 180 + back_threshold c))
      then 2
      else if a > ca (- front_threshold c) \<and> a < ca (front_threshold c) then 1
      else 0)"

subsection \<open>Example inputs\<close>

text \<open>The defaults of \<open>PromptProcessor.Config\<close>, and a small prompt library.\<close>

definition default_config :: Config where
  "default_config =
     \<lparr>prompt = ''a hamburger'', negative_prompt = '''',
      pretrained_model_name_or_path = ''runwayml/stable-diffusion-v1-5'',
      view_dependent_prompting = True, overhead_threshold = 60, front_threshold = 45,
      back_threshold = 45, view_dependent_prompt_front = False\<rparr>"

definition example_library :: "string \<rightharpoonup> string list" where
  "example_library =
     [''dreamfusion'' \<mapsto>
        [''a DSLR photo of a hamburger'', ''a corgi'', ''a zoomed out hamburger'']]"

text \<open>
  For the examples, \<open>str.lower\<close> on strings of ASCII characters, where it changes the
  letters \<open>A\<close> to \<open>Z\<close> only. The examples below apply it to ASCII strings only; on other
  strings it is not \<open>str.lower\<close>.
\<close>

definition ascii_lower_char :: "char \<Rightarrow> char" where
  "ascii_lower_char c =
     (let n = (of_char c :: nat) in if 65 \<le> n \<and> n \<le> 90 then char_of (n + 32) else c)"

definition ascii_lower :: "string \<Rightarrow> string" where
  "ascii_lower s = map ascii_lower_char s"

text \<open>
  For the examples, Python's float arithmetic where the exact result is a float: nothing
  is rounded. The examples below compute \<open>180 - 45\<close>, \<open>180 - 100\<close> and their negatives.
\<close>

definition exact_result :: "real \<Rightarrow> real" where
  "exact_result x = x"

text \<open>
  For the examples, rounding to a binary floating-point format with a significand of \<open>p\<close>
  bits: to the nearest number of the format, a tie to the one with the even significand.
  \<open>binade x\<close> is the exponent \<open>k\<close> with \<open>2 ^ k \<le> |x| < 2 ^ (k + 1)\<close>. The exponent range of
  a format is not modelled: for float32 (\<open>p = 24\<close>) the function is the conversion of a
  Python float for zero and for magnitudes from \<open>2 ^ (-126)\<close> up to the largest float32;
  the examples below convert angles in degrees.
\<close>

definition round_half_even :: "real \<Rightarrow> int" where
  "round_half_even x =
     (let f = \<lfloor>x\<rfloor>; d = x - of_int f
      in if d < 1 / 2 then f else if d > 1 / 2 then f + 1 else if even f then f else f + 1)"

definition binade :: "real \<Rightarrow> int" where
  "binade x = (if 1 \<le> \<bar>x\<bar> then bitlen \<lfloor>\<bar>x\<bar>\<rfloor> - 1 else - bitlen (\<lceil>1 / \<bar>x\<bar>\<rceil> - 1))"

definition pow2 :: "int \<Rightarrow> real" where
  "pow2 k = (if 0 \<le> k then 2 ^ nat k else 1 / 2 ^ nat (- k))"

definition round_to_bits :: "nat \<Rightarrow> real \<Rightarrow> real" where
  "round_to_bits p x =
     (if x = 0 then 0
      else (let u = pow2 (binade x - int p + 1)
            in of_int (round_half_even (x / u)) * u))"

text \<open>
  A float32 tensor (the default dtype of torch) and a float64 tensor with the given
  entries. A Python float is a float64, so the float64 tensor compares with it as it is.
\<close>

definition float32_tensor :: "real list \<Rightarrow> tensor" where
  "float32_tensor xs = \<lparr>entries = xs, of_scalar = round_to_bits 24\<rparr>"

definition float64_tensor :: "real list \<Rightarrow> tensor" where
  "float64_tensor xs = \<lparr>entries = xs, of_scalar = (\<lambda>x. x)\<rparr>"

section \<open>Properties\<close>

subsection \<open>What \<open>configure\<close> stores\<close>

lemma make_direction2idx_front:
  "make_direction2idx (directions_front rnd c) =
     [''side'' \<mapsto> 0, ''front'' \<mapsto> 1, ''back'' \<mapsto> 2, ''overhead'' \<mapsto> 3]"
  by (simp add: make_direction2idx_def directions_front_def numeral_2_eq_2 numeral_3_eq_3)

lemma make_direction2idx_suffix:
  "make_direction2idx (directions_suffix rnd c) =
     [''side'' \<mapsto> 0, ''front'' \<mapsto> 1, ''back'' \<mapsto> 2, ''overhead'' \<mapsto> 3]"
  by (simp add: make_direction2idx_def directions_suffix_def numeral_2_eq_2 numeral_3_eq_3)

lemma length_directions [simp]:
  "length (directions_front rnd c) = 4" "length (directions_suffix rnd c) = 4"
  by (simp_all add: directions_front_def directions_suffix_def)

lemma configure_fields:
  assumes "configure lower rnd enc c library = Inr self"
  shows "cfg self = c"
    and "preprocess_prompt lower library (prompt c) = Inr (self_prompt self)"
    and "self_negative_prompt self = negative_prompt c"
    and "text_embeddings self = [enc (self_prompt self)]"
    and "uncond_text_embeddings self = [enc (negative_prompt c)]"
    and "directions self =
           (if view_dependent_prompt_front c then directions_front rnd c
            else directions_suffix rnd c)"
    and "direction2idx self = [''side'' \<mapsto> 0, ''front'' \<mapsto> 1, ''back'' \<mapsto> 2, ''overhead'' \<mapsto> 3]"
    and "length (text_embeddings_vd self) = 4"
    and "length (uncond_text_embeddings_vd self) = 4"
  using assms
  by (auto simp: configure_def get_text_embeddings_def Let_def make_direction2idx_front
      make_direction2idx_suffix
      split: sum.splits if_splits)

lemma configure_text_embeddings_vd:
  assumes "configure lower rnd enc c library = Inr self"
  shows "text_embeddings_vd self =
           map enc (if view_dependent_prompt_front c
                    then map (\<lambda>d. d_prompt d @ '' '' @ prompt c @ '' '') (directions_front rnd c)
                    else map (\<lambda>d. self_prompt self @ '' '' @ d_prompt d)
                           (directions_suffix rnd c))"
  using assms
  by (auto simp: configure_def get_text_embeddings_def Let_def split: sum.splits if_splits)


lemma configure_succeeds:
  assumes "preprocess_prompt lower library (prompt c) = Inr p"
  shows "\<exists>self. configure lower rnd enc c library = Inr self"
  using assms by (simp add: configure_def Let_def split: prod.splits)

lemma default_configured:
  "\<exists>self. configure lower rnd enc default_config example_library = Inr self"
proof -
  have "preprocess_prompt lower example_library (prompt default_config) = Inr ''a hamburger''"
    by (simp add: preprocess_prompt_def default_config_def)
  then show ?thesis by (rule configure_succeeds)
qed

lemma table_names:
  "map d_name (directions_front rnd c) = [''side'', ''front'', ''back'', ''overhead'']"
  "map d_name (directions_suffix rnd c) = [''side'', ''front'', ''back'', ''overhead'']"
  by (simp_all add: directions_front_def directions_suffix_def)

lemma configure_names:
  assumes "configure lower rnd enc c library = Inr self"
  shows "map d_name (directions self) = [''side'', ''front'', ''back'', ''overhead'']"
  using configure_fields(6)[OF assms] by (simp add: table_names)

lemma table_bijection:
  "bij_betw (\<lambda>n. the ([''side'' \<mapsto> 0::nat, ''front'' \<mapsto> 1, ''back'' \<mapsto> 2, ''overhead'' \<mapsto> 3] n))
     {''side'', ''front'', ''back'', ''overhead''} {..<4}"
proof -
  have "{..<4::nat} = {0, 1, 2, 3}" by auto
  then show ?thesis
    by (auto simp: bij_betw_def inj_on_def)
qed

lemma run_calls_same: "run_calls self batches = self"
  by (induction batches) (auto simp: call_step_def split: prod.splits)

subsection \<open>What the direction loop computes\<close>

lemma loop_table:
  assumes "length (entries azi) = length (entries ele)"
  shows "direction_loop [''side'' \<mapsto> 0, ''front'' \<mapsto> 1, ''back'' \<mapsto> 2, ''overhead'' \<mapsto> 3]
           [\<lparr>d_name = ''side'', d_prompt = p0, d_negative_prompt = n0,
               condition = side_condition\<rparr>,
            \<lparr>d_name = ''front'', d_prompt = p1, d_negative_prompt = n1,
               condition = front_condition c\<rparr>,
            \<lparr>d_name = ''back'', d_prompt = p2, d_negative_prompt = n2,
               condition = back_condition rnd c\<rparr>,
            \<lparr>d_name = ''overhead'', d_prompt = p3, d_negative_prompt = n3,
               condition = overhead_condition c\<rparr>]
           ele azi dis (replicate (length (entries ele)) 0)
         = Inr (map2 (direction_of_pose rnd c (of_scalar ele) (of_scalar azi))
                  (entries ele) (entries azi))"
  using assms
  by (auto simp: masked_assign_def side_condition_def front_condition_def back_condition_def
      overhead_condition_def direction_of_pose_def intro!: nth_equalityI)

lemma loop_table_mismatch:
  assumes "length (entries azi) \<noteq> length (entries ele)"
  shows "direction_loop [''side'' \<mapsto> 0, ''front'' \<mapsto> 1, ''back'' \<mapsto> 2, ''overhead'' \<mapsto> 3]
           [\<lparr>d_name = ''side'', d_prompt = p0, d_negative_prompt = n0,
               condition = side_condition\<rparr>,
            \<lparr>d_name = ''front'', d_prompt = p1, d_negative_prompt = n1,
               condition = front_condition c\<rparr>,
            \<lparr>d_name = ''back'', d_prompt = p2, d_negative_prompt = n2,
               condition = back_condition rnd c\<rparr>,
            \<lparr>d_name = ''overhead'', d_prompt = p3, d_negative_prompt = n3,
               condition = overhead_condition c\<rparr>]
           ele azi dis (replicate (length (entries ele)) 0)
         = Inl MaskShapeMismatch"
  using assms
  by (simp add: masked_assign_def side_condition_def front_condition_def)

lemma direction_idx_configured:
  assumes "configure lower rnd enc c library = Inr self"
  shows "direction_idx self ele azi dis =
           (if length (entries azi) = length (entries ele)
            then Inr (map2 (direction_of_pose rnd c (of_scalar ele) (of_scalar azi))
                        (entries ele) (entries azi))
            else Inl MaskShapeMismatch)"
proof -
  have "direction_loop [''side'' \<mapsto> 0, ''front'' \<mapsto> 1, ''back'' \<mapsto> 2, ''overhead'' \<mapsto> 3]
          (directions_front rnd c) ele azi dis (replicate (length (entries ele)) 0) =
        (if length (entries azi) = length (entries ele)
         then Inr (map2 (direction_of_pose rnd c (of_scalar ele) (of_scalar azi))
                     (entries ele) (entries azi))
         else Inl MaskShapeMismatch)"
    unfolding directions_front_def using loop_table loop_table_mismatch by presburger
  moreover have
    "direction_loop [''side'' \<mapsto> 0, ''front'' \<mapsto> 1, ''back'' \<mapsto> 2, ''overhead'' \<mapsto> 3]
          (directions_suffix rnd c) ele azi dis (replicate (length (entries ele)) 0) =
        (if length (entries azi) = length (entries ele)
         then Inr (map2 (direction_of_pose rnd c (of_scalar ele) (of_scalar azi))
                     (entries ele) (entries azi))
         else Inl MaskShapeMismatch)"
    unfolding directions_suffix_def using loop_table loop_table_mismatch by presburger
  ultimately show ?thesis
    using configure_fields(6,7)[OF assms] by (simp add: direction_idx_def)
qed

lemma direction_of_pose_less: "direction_of_pose rnd c ce ca e a < 4"
  by (simp add: direction_of_pose_def)

lemma list_all_direction_of_pose:
  "list_all (\<lambda>i. i < 4) (map2 (direction_of_pose rnd c ce ca) es as)"
  by (simp add: list_all_iff direction_of_pose_less split_beta)

lemma direction_idx_nth:
  assumes "configure lower rnd enc c library = Inr self"
    and "length (entries azi) = length (entries ele)" and "i < length (entries ele)"
  shows "\<exists>idx. direction_idx self ele azi dis = Inr idx \<and> length idx = length (entries ele) \<and>
           idx ! i = direction_of_pose rnd c (of_scalar ele) (of_scalar azi)
                       (entries ele ! i) (entries azi ! i)"
  using assms by (simp add: direction_idx_configured[OF assms(1)])

subsection \<open>What \<open>__call__\<close> computes\<close>

lemma set_gathered:
  assumes "list_all (\<lambda>i. i < length rows) idx"
  shows "set (map (\<lambda>i. rows ! i) idx) \<subseteq> set rows"
  using assms by (auto simp: list_all_iff)

lemma call_embeddings_vd:
  assumes "configure lower rnd enc c library = Inr self" and "view_dependent_prompting c"
    and "length (entries azi) = length (entries ele)"
  shows "call_embeddings self ele azi dis =
           Inr (map (\<lambda>i. text_embeddings_vd self ! i)
                  (map2 (direction_of_pose rnd c (of_scalar ele) (of_scalar azi))
                     (entries ele) (entries azi)),
                map (\<lambda>i. uncond_text_embeddings_vd self ! i)
                  (map2 (direction_of_pose rnd c (of_scalar ele) (of_scalar azi))
                     (entries ele) (entries azi)))"
  using assms configure_fields(1,8,9)[OF assms(1)]
    list_all_direction_of_pose[of rnd c "of_scalar ele" "of_scalar azi" "entries ele" "entries azi"]
  by (simp add: call_embeddings_def direction_idx_configured[OF assms(1)] gather_def Let_def)

lemma call_embeddings_vd_mismatch:
  assumes "configure lower rnd enc c library = Inr self" and "view_dependent_prompting c"
    and "length (entries azi) \<noteq> length (entries ele)"
  shows "call_embeddings self ele azi dis = Inl MaskShapeMismatch"
  using assms configure_fields(1)[OF assms(1)]
  by (simp add: call_embeddings_def direction_idx_configured[OF assms(1)] Let_def)

lemma call_embeddings_base:
  assumes "configure lower rnd enc c library = Inr self" and "\<not> view_dependent_prompting c"
  shows "call_embeddings self ele azi dis =
           Inr (replicate (length (entries ele)) (enc (self_prompt self)),
                replicate (length (entries ele)) (enc (self_negative_prompt self)))"
  using assms configure_fields(1,3,4,5)[OF assms(1)]
  by (simp add: call_embeddings_def expand_def Let_def)

subsection \<open>What the resolver's loop computes\<close>

lemma find_candidate_Some:
  "find_candidate lower kw ps (Some c0) =
     (if filter (\<lambda>p. list_all (\<lambda>k. sublist k (lower p)) kw) ps = [] then Inr (Some c0)
      else Inl (MultiplePromptsMatched kw))"
  by (induction ps) auto

lemma find_candidate_None:
  "find_candidate lower kw ps None =
     (case filter (\<lambda>p. list_all (\<lambda>k. sublist k (lower p)) kw) ps of
        [] \<Rightarrow> Inr None
      | [c] \<Rightarrow> Inr (Some c)
      | _ \<Rightarrow> Inl (MultiplePromptsMatched kw))"
  by (induction ps) (auto simp: find_candidate_Some split: list.splits)

subsection \<open>The example conversions\<close>

text \<open>
  The float32 nearest to one tenth is \<open>13421773 / 2 ^ 27\<close> (the bit pattern 3DCCCCCD), the
  one nearest to 60.2 is \<open>15781069 / 2 ^ 18\<close>; the default thresholds are float32 numbers.
\<close>

lemma round_to_bits_examples:
  "round_to_bits 24 (1 / 10) = 13421773 / 2 ^ 27"
  "round_to_bits 24 (602 / 10) = 15781069 / 2 ^ 18"
  "round_to_bits 24 45 = 45" "round_to_bits 24 (- 45) = - 45"
  "round_to_bits 24 60 = 60" "round_to_bits 24 135 = 135"
  by code_simp+

subsection \<open>The layout of the output\<close>

text \<open>
  Claim C1. After \<open>configure\<close>, for every batch whose elevation, azimuth and camera
  distance tensors have the same length \<open>B \<ge> 1\<close>, \<open>__call__\<close> returns a tensor of \<open>2B\<close>
  rows: its first \<open>B\<close> rows are the conditional embeddings (the local tensor
  \<open>text_embeddings\<close>, rows of the stored conditional embeddings), its last \<open>B\<close> rows the
  unconditional ones. Nothing is assumed about \<open>view_dependent_prompting\<close>: the statement
  covers both modes. The camera distances are read by no condition, so their length does
  not matter.
\<close>

theorem call_output_layout:
  assumes "configure lower rnd enc c library = Inr self"
    and "length (entries azi) = length (entries ele)" and "1 \<le> length (entries ele)"
  shows "\<exists>cond uncond.
           call_embeddings self ele azi dis = Inr (cond, uncond) \<and>
           length cond = length (entries ele) \<and> length uncond = length (entries ele) \<and>
           set cond \<subseteq> set (text_embeddings self) \<union> set (text_embeddings_vd self) \<and>
           set uncond \<subseteq> set (uncond_text_embeddings self) \<union> set (uncond_text_embeddings_vd self) \<and>
           (\<exists>out. call self ele azi dis = Inr out \<and> length out = 2 * length (entries ele) \<and>
                  take (length (entries ele)) out = cond \<and>
                  drop (length (entries ele)) out = uncond)"
proof (cases "view_dependent_prompting c")
  case True
  let ?idx = "map2 (direction_of_pose rnd c (of_scalar ele) (of_scalar azi))
                (entries ele) (entries azi)"
  have r: "list_all (\<lambda>i. i < 4) ?idx"
    by (rule list_all_direction_of_pose)
  have "set (map (\<lambda>i. text_embeddings_vd self ! i) ?idx) \<subseteq> set (text_embeddings_vd self)"
    using r configure_fields(8)[OF assms(1)] by (intro set_gathered) simp
  moreover have "set (map (\<lambda>i. uncond_text_embeddings_vd self ! i) ?idx)
      \<subseteq> set (uncond_text_embeddings_vd self)"
    using r configure_fields(9)[OF assms(1)] by (intro set_gathered) simp
  ultimately show ?thesis
    using call_embeddings_vd[OF assms(1) True assms(2), of dis] assms(2)
    by (simp add: call_def le_supI2)
next
  case False
  show ?thesis
    using call_embeddings_base[OF assms(1) False, of ele azi dis]
      configure_fields(3,4,5)[OF assms(1)] assms(3)
    by (auto simp: call_def)
qed

theorem call_output_layout_witness:
  "\<exists>self. configure ascii_lower exact_result (\<lambda>s. s) default_config example_library = Inr self \<and>
     (\<exists>cond uncond.
        call_embeddings self (float32_tensor [0, 70]) (float32_tensor [0, 170])
          (float32_tensor [1, 1]) = Inr (cond, uncond) \<and>
        length cond = 2 \<and> length uncond = 2 \<and>
        (\<exists>out. call self (float32_tensor [0, 70]) (float32_tensor [0, 170])
                 (float32_tensor [1, 1]) = Inr out \<and>
           length out = 4 \<and> take 2 out = cond \<and> drop 2 out = uncond))"
proof -
  obtain self where
    s: "configure ascii_lower exact_result (\<lambda>s. s) default_config example_library = Inr self"
    using default_configured by blast
  have l: "length (entries (float32_tensor [0, 170])) = length (entries (float32_tensor [0, 70]))"
    "1 \<le> length (entries (float32_tensor [0, 70]))"
    by (simp_all add: float32_tensor_def)
  have n: "length (entries (float32_tensor [0, 70])) = 2"
    by (simp add: float32_tensor_def)
  from call_output_layout[OF s l, of "float32_tensor [1, 1]"] s show ?thesis
    unfolding n by (auto simp: numeral_2_eq_2)
qed

text \<open>
  Claim C8. With \<open>view_dependent_prompting\<close> off, for every batch size \<open>B \<ge> 1\<close> the
  output is \<open>B\<close> copies of the one base conditional row followed by \<open>B\<close> copies of the one
  base unconditional row.
\<close>

theorem call_without_view_dependence:
  assumes "configure lower rnd enc c library = Inr self" and "\<not> view_dependent_prompting c"
    and "1 \<le> length (entries ele)"
  shows "\<exists>base ubase.
           text_embeddings self = [base] \<and> uncond_text_embeddings self = [ubase] \<and>
           call self ele azi dis =
             Inr (replicate (length (entries ele)) base @ replicate (length (entries ele)) ubase)"
  using call_embeddings_base[OF assms(1,2), of ele azi dis] configure_fields(3,4,5)[OF assms(1)]
  by (simp add: call_def)

theorem call_without_view_dependence_witness:
  "\<not> view_dependent_prompting (default_config\<lparr>view_dependent_prompting := False\<rparr>) \<and>
   (\<exists>self. configure ascii_lower exact_result (\<lambda>s. s)
             (default_config\<lparr>view_dependent_prompting := False\<rparr>) example_library = Inr self \<and>
      (\<exists>base ubase. text_embeddings self = [base] \<and> uncond_text_embeddings self = [ubase] \<and>
         call self (float32_tensor [0, 70, 10]) (float32_tensor [0, 170, 10])
           (float32_tensor [1, 1, 1]) =
           Inr [base, base, base, ubase, ubase, ubase]))"
proof -
  have "preprocess_prompt ascii_lower example_library
      (prompt (default_config\<lparr>view_dependent_prompting := False\<rparr>)) = Inr ''a hamburger''"
    by (simp add: preprocess_prompt_def default_config_def)
  then obtain self where
    s: "configure ascii_lower exact_result (\<lambda>s. s)
          (default_config\<lparr>view_dependent_prompting := False\<rparr>) example_library = Inr self"
    using configure_succeeds by blast
  have v: "\<not> view_dependent_prompting (default_config\<lparr>view_dependent_prompting := False\<rparr>)"
    by simp
  have l: "1 \<le> length (entries (float32_tensor [0, 70, 10]))"
    by (simp add: float32_tensor_def)
  have n: "length (entries (float32_tensor [0, 70, 10])) = 3"
    by (simp add: float32_tensor_def)
  from call_without_view_dependence[OF s v l, of "float32_tensor [0, 170, 10]"
      "float32_tensor [1, 1, 1]"] s v
  show ?thesis unfolding n by (auto simp: numeral_3_eq_3)
qed

subsection \<open>The prompt resolver\<close>

text \<open>
  Claim C7. A prompt that does not start with \<open>lib:\<close> is returned unchanged, and no error
  is raised.
\<close>

theorem preprocess_prompt_passthrough:
  assumes "\<not> prefix ''lib:'' p"
  shows "preprocess_prompt lower library p = Inr p"
  using assms by (simp add: preprocess_prompt_def)

theorem preprocess_prompt_passthrough_witness:
  "\<not> prefix ''lib:'' ''a hamburger'' \<and>
   preprocess_prompt ascii_lower example_library ''a hamburger'' = Inr ''a hamburger''"
proof -
  have h: "\<not> prefix ''lib:'' ''a hamburger''" by simp
  from preprocess_prompt_passthrough[OF h, of ascii_lower example_library] h
  show ?thesis by simp
qed

text \<open>
  Claim C6. For a prompt that starts with \<open>lib:\<close>, the keywords are the pieces between
  underscores of the lower-cased remainder, and a candidate of the \<open>dreamfusion\<close> list
  matches when every keyword is a substring of the lower-cased candidate. With no matching
  candidate the resolver raises the "cannot find" error, with exactly one it returns that
  candidate, with two or more it raises the "multiple prompts" error; so a value is returned
  only in the one-match case. Matches are counted by position in the list: a string listed
  twice counts twice. This holds whatever function \<open>lower\<close> is.
\<close>

theorem preprocess_prompt_library:
  assumes "prefix ''lib:'' p" and "library ''dreamfusion'' = Some ps"
  shows "(case filter (\<lambda>c. list_all (\<lambda>k. sublist k (lower c))
                             (split (CHR ''_'') (lower (drop 4 p)))) ps of
            [] \<Rightarrow> preprocess_prompt lower library p =
                    Inl (CannotFindPrompt (split (CHR ''_'') (lower (drop 4 p))))
          | [c] \<Rightarrow> preprocess_prompt lower library p = Inr c
          | _ \<Rightarrow> preprocess_prompt lower library p =
                    Inl (MultiplePromptsMatched (split (CHR ''_'') (lower (drop 4 p)))))"
  using assms
  by (simp add: preprocess_prompt_def find_candidate_None split: list.splits)

theorem preprocess_prompt_library_witness:
  "preprocess_prompt ascii_lower example_library ''lib:Hamburger_dslr'' =
     Inr ''a DSLR photo of a hamburger'' \<and>
   preprocess_prompt ascii_lower example_library ''lib:cat'' = Inl (CannotFindPrompt [''cat'']) \<and>
   preprocess_prompt ascii_lower example_library ''lib:hamburger'' =
     Inl (MultiplePromptsMatched [''hamburger''])"
proof -
  have l: "example_library ''dreamfusion'' =
      Some [''a DSLR photo of a hamburger'', ''a corgi'', ''a zoomed out hamburger'']"
    by (simp add: example_library_def)
  have p1: "prefix ''lib:'' ''lib:Hamburger_dslr''" and p2: "prefix ''lib:'' ''lib:cat''"
    and p3: "prefix ''lib:'' ''lib:hamburger''"
    by simp_all
  have f1: "filter (\<lambda>c. list_all (\<lambda>k. sublist k (ascii_lower c))
                (split (CHR ''_'') (ascii_lower (drop 4 ''lib:Hamburger_dslr''))))
              [''a DSLR photo of a hamburger'', ''a corgi'', ''a zoomed out hamburger'']
            = [''a DSLR photo of a hamburger'']"
    by code_simp
  have f2: "filter (\<lambda>c. list_all (\<lambda>k. sublist k (ascii_lower c)) [''cat''])
              [''a DSLR photo of a hamburger'', ''a corgi'', ''a zoomed out hamburger'']
            = []"
    by code_simp
  have f3: "filter (\<lambda>c. list_all (\<lambda>k. sublist k (ascii_lower c)) [''hamburger''])
              [''a DSLR photo of a hamburger'', ''a corgi'', ''a zoomed out hamburger'']
            = [''a DSLR photo of a hamburger'', ''a zoomed out hamburger'']"
    by code_simp
  have k1: "split (CHR ''_'') (ascii_lower (drop 4 ''lib:cat'')) = [''cat'']" by code_simp
  have k2: "split (CHR ''_'') (ascii_lower (drop 4 ''lib:hamburger'')) = [''hamburger'']"
    by code_simp
  from preprocess_prompt_library[where library = example_library and lower = ascii_lower,
      OF p1 l]
    preprocess_prompt_library[where library = example_library and lower = ascii_lower, OF p2 l]
    preprocess_prompt_library[where library = example_library and lower = ascii_lower, OF p3 l]
  show ?thesis
    unfolding f1 f2 f3 k1 k2 by simp
qed

subsection \<open>What \<open>configure\<close> hands to the encoder\<close>




text \<open>
  Claim C2. The per-direction strings are to be built from the resolved prompt in both
  modes. The branch for \<open>view_dependent_prompt_front\<close> reads \<open>self.cfg.prompt\<close>, the
  unresolved configuration value, where the other branch and the base embedding read
  \<open>self.prompt\<close>. With the prompt \<open>lib:corgi\<close> the resolver returns \<open>a corgi\<close> and the base
  embedding is that of \<open>a corgi\<close>, but the four strings that are encoded in front-aware mode
  contain \<open>lib:corgi\<close> (the encoder here is the identity).
\<close>

theorem front_prompts_use_unresolved_prompt:
  "map_sum id (\<lambda>self. (self_prompt self, text_embeddings self, text_embeddings_vd self))
     (configure ascii_lower exact_result (\<lambda>s. s)
        (default_config\<lparr>prompt := ''lib:corgi'', view_dependent_prompt_front := True\<rparr>)
        example_library)
   = Inr (''a corgi'', [''a corgi''],
          [''side view of  lib:corgi '', ''front view of  lib:corgi '',
           ''backside view of  lib:corgi '', ''overhead view of  lib:corgi ''])"
  by code_simp

text \<open>The other branch, on the same prompt, uses the resolved prompt.\<close>

lemma suffix_prompts_use_resolved_prompt:
  "map_sum id (\<lambda>self. (self_prompt self, text_embeddings self, text_embeddings_vd self))
     (configure ascii_lower exact_result (\<lambda>s. s)
        (default_config\<lparr>prompt := ''lib:corgi''\<rparr>)
        example_library)
   = Inr (''a corgi'', [''a corgi''],
          [''a corgi , side view'', ''a corgi , front view'',
           ''a corgi , back view'', ''a corgi , overhead view''])"
  by code_simp

subsection \<open>The direction index\<close>

text \<open>
  Claim C4, as amended. Take a batch with as many azimuths as elevations, and a sample
  whose azimuth lies strictly between \<open>-front_threshold\<close> and \<open>front_threshold\<close> and whose
  elevation is at most \<open>overhead_threshold\<close>, each threshold as converted to the dtype of
  the tensor it is compared with. Its direction index is that of \<open>front\<close> when the azimuth
  does not satisfy the condition of \<open>back\<close> (\<open>azimuth > 180 - back_threshold\<close> or
  \<open>azimuth < -180 + back_threshold\<close>, the sums likewise converted), and that of \<open>back\<close>
  when it does: \<open>back\<close> comes after \<open>front\<close> in the table and overwrites it.
\<close>

theorem front_direction:
  assumes "configure lower rnd enc c library = Inr self"
    and "length (entries azi) = length (entries ele)" and "i < length (entries ele)"
    and "of_scalar azi (- front_threshold c) < entries azi ! i"
    and "entries azi ! i < of_scalar azi (front_threshold c)"
    and "entries ele ! i \<le> of_scalar ele (overhead_threshold c)"
  shows "\<exists>idx. direction_idx self ele azi dis = Inr idx \<and> length idx = length (entries ele) \<and>
           direction2idx self
             (if entries azi ! i > of_scalar azi (rnd (180 - back_threshold c)) \<or>
                 entries azi ! i < of_scalar azi (rnd (- 180 + back_threshold c))
              then ''back'' else ''front'') = Some (idx ! i)"
proof -
  obtain idx where idx: "direction_idx self ele azi dis = Inr idx"
    "length idx = length (entries ele)"
    "idx ! i = direction_of_pose rnd c (of_scalar ele) (of_scalar azi)
                 (entries ele ! i) (entries azi ! i)"
    using direction_idx_nth[OF assms(1,2,3)] by blast
  have "idx ! i =
      (if entries azi ! i > of_scalar azi (rnd (180 - back_threshold c)) \<or>
          entries azi ! i < of_scalar azi (rnd (- 180 + back_threshold c)) then 2 else 1)"
    using idx(3) assms(4,5,6) by (simp add: direction_of_pose_def)
  then show ?thesis
    using idx(1,2) configure_fields(7)[OF assms(1)] by simp
qed

text \<open>
  The claim as stated fails in two ways. Where the two ranges overlap: with
  \<open>front_threshold = 100\<close> and \<open>back_threshold = 100\<close> (all thresholds positive), a sample
  at azimuth 90 and elevation 0 is within \<open>(-100, 100)\<close> and below the overhead threshold,
  and gets the index of \<open>back\<close>. And where a threshold is not a number of the tensor's
  dtype: with \<open>front_threshold = 45 + 2 ^ (-30)\<close> a sample of a float32 tensor at azimuth 45
  and elevation 0 is within the range, but is compared with the threshold rounded to
  float32, which is 45, and gets the index of \<open>side\<close>.
\<close>

theorem front_direction_counterexample:
  "0 < front_threshold (default_config\<lparr>front_threshold := 100, back_threshold := 100\<rparr>) \<and>
   0 < back_threshold (default_config\<lparr>front_threshold := 100, back_threshold := 100\<rparr>) \<and>
   0 < overhead_threshold (default_config\<lparr>front_threshold := 100, back_threshold := 100\<rparr>) \<and>
   - front_threshold (default_config\<lparr>front_threshold := 100, back_threshold := 100\<rparr>) < 90 \<and>
   90 < front_threshold (default_config\<lparr>front_threshold := 100, back_threshold := 100\<rparr>) \<and>
   0 \<le> overhead_threshold (default_config\<lparr>front_threshold := 100, back_threshold := 100\<rparr>) \<and>
   map_sum id
     (\<lambda>self. (direction_idx self (float32_tensor [0]) (float32_tensor [90]) (float32_tensor [1]),
              direction2idx self ''front'', direction2idx self ''back''))
     (configure ascii_lower exact_result (\<lambda>s. s)
        (default_config\<lparr>front_threshold := 100, back_threshold := 100\<rparr>) example_library)
   = Inr (Inr [2], Some 1, Some 2) \<and>
   0 < front_threshold (default_config\<lparr>front_threshold := 45 + 1 / 2 ^ 30\<rparr>) \<and>
   0 < back_threshold (default_config\<lparr>front_threshold := 45 + 1 / 2 ^ 30\<rparr>) \<and>
   0 < overhead_threshold (default_config\<lparr>front_threshold := 45 + 1 / 2 ^ 30\<rparr>) \<and>
   - front_threshold (default_config\<lparr>front_threshold := 45 + 1 / 2 ^ 30\<rparr>) < 45 \<and>
   45 < front_threshold (default_config\<lparr>front_threshold := 45 + 1 / 2 ^ 30\<rparr>) \<and>
   0 \<le> overhead_threshold (default_config\<lparr>front_threshold := 45 + 1 / 2 ^ 30\<rparr>) \<and>
   map_sum id
     (\<lambda>self. (direction_idx self (float32_tensor [0]) (float32_tensor [45]) (float32_tensor [1]),
              direction2idx self ''front'', direction2idx self ''side''))
     (configure ascii_lower exact_result (\<lambda>s. s)
        (default_config\<lparr>front_threshold := 45 + 1 / 2 ^ 30\<rparr>) example_library)
   = Inr (Inr [0], Some 1, Some 0)"
  by code_simp

theorem front_direction_witness:
  "\<exists>self. configure ascii_lower exact_result (\<lambda>s. s) default_config example_library = Inr self \<and>
     of_scalar (float32_tensor [170, 10]) (- front_threshold default_config) < 10 \<and>
     10 < of_scalar (float32_tensor [170, 10]) (front_threshold default_config) \<and>
     20 \<le> of_scalar (float32_tensor [0, 20]) (overhead_threshold default_config) \<and>
     (\<exists>idx. direction_idx self (float32_tensor [0, 20]) (float32_tensor [170, 10])
              (float32_tensor [1, 1]) = Inr idx \<and>
        direction2idx self ''front'' = Some (idx ! 1))"
proof -
  obtain self where
    s: "configure ascii_lower exact_result (\<lambda>s. s) default_config example_library = Inr self"
    using default_configured by blast
  have h: "of_scalar (float32_tensor [170, 10]) (- front_threshold default_config)
             < entries (float32_tensor [170, 10]) ! 1"
    "entries (float32_tensor [170, 10]) ! 1
       < of_scalar (float32_tensor [170, 10]) (front_threshold default_config)"
    "entries (float32_tensor [0, 20]) ! 1
       \<le> of_scalar (float32_tensor [0, 20]) (overhead_threshold default_config)"
    by code_simp+
  have b: "\<not> (entries (float32_tensor [170, 10]) ! 1
              > of_scalar (float32_tensor [170, 10])
                  (exact_result (180 - back_threshold default_config)) \<or>
            entries (float32_tensor [170, 10]) ! 1
              < of_scalar (float32_tensor [170, 10])
                  (exact_result (- 180 + back_threshold default_config)))"
    by code_simp
  have l: "length (entries (float32_tensor [170, 10])) = length (entries (float32_tensor [0, 20]))"
    "1 < length (entries (float32_tensor [0, 20]))"
    by (simp_all add: float32_tensor_def)
  have e: "entries (float32_tensor [170, 10]) ! 1 = 10" "entries (float32_tensor [0, 20]) ! 1 = 20"
    by (simp_all add: float32_tensor_def)
  from front_direction[OF s l h, of "float32_tensor [1, 1]"] b
  have "\<exists>idx. direction_idx self (float32_tensor [0, 20]) (float32_tensor [170, 10])
              (float32_tensor [1, 1]) = Inr idx \<and>
        direction2idx self ''front'' = Some (idx ! 1)"
    by auto
  with s h show ?thesis unfolding e by blast
qed

text \<open>
  Claim C5, as amended. For a sample whose elevation is strictly greater than
  \<open>overhead_threshold\<close> as converted to the dtype of the elevation tensor, whatever its
  azimuth, in a batch with as many azimuths as elevations, the direction index is that of
  \<open>overhead\<close>: \<open>overhead\<close> is the last entry of the table, and the first entry, at index 0,
  is \<open>side\<close>.
\<close>

theorem overhead_direction:
  assumes "configure lower rnd enc c library = Inr self"
    and "length (entries azi) = length (entries ele)" and "i < length (entries ele)"
    and "entries ele ! i > of_scalar ele (overhead_threshold c)"
  shows "\<exists>idx. direction_idx self ele azi dis = Inr idx \<and> length idx = length (entries ele) \<and>
           direction2idx self ''overhead'' = Some (idx ! i) \<and>
           d_name (last (directions self)) = ''overhead'' \<and>
           d_name (hd (directions self)) = ''side'' \<and>
           direction2idx self ''side'' = Some 0"
proof -
  obtain idx where idx: "direction_idx self ele azi dis = Inr idx"
    "length idx = length (entries ele)"
    "idx ! i = direction_of_pose rnd c (of_scalar ele) (of_scalar azi)
                 (entries ele ! i) (entries azi ! i)"
    using direction_idx_nth[OF assms(1,2,3)] by blast
  have "idx ! i = 3"
    using idx(3) assms(4) by (simp add: direction_of_pose_def)
  moreover have "d_name (last (directions self)) = ''overhead''"
    and "d_name (hd (directions self)) = ''side''"
    using configure_fields(6)[OF assms(1)]
    by (simp_all add: directions_front_def directions_suffix_def)
  ultimately show ?thesis
    using idx(1,2) configure_fields(7)[OF assms(1)] by simp
qed

text \<open>
  The claim as stated fails where the threshold is not a number of the tensor's dtype:
  with \<open>overhead_threshold = 60 - 2 ^ (-30)\<close>, a sample of a float32 tensor at elevation 60
  (and azimuth 90) is strictly above the threshold, but is compared with the threshold
  rounded to float32, which is 60, and keeps the index of \<open>side\<close>.
\<close>

theorem overhead_direction_counterexample:
  "60 > overhead_threshold (default_config\<lparr>overhead_threshold := 60 - 1 / 2 ^ 30\<rparr>) \<and>
   map_sum id
     (\<lambda>self. (direction_idx self (float32_tensor [60]) (float32_tensor [90]) (float32_tensor [1]),
              direction2idx self ''overhead'', direction2idx self ''side''))
     (configure ascii_lower exact_result (\<lambda>s. s)
        (default_config\<lparr>overhead_threshold := 60 - 1 / 2 ^ 30\<rparr>) example_library)
   = Inr (Inr [0], Some 3, Some 0)"
  by code_simp

theorem overhead_direction_witness:
  "\<exists>self. configure ascii_lower exact_result (\<lambda>s. s) default_config example_library = Inr self \<and>
     70 > of_scalar (float32_tensor [0, 70, 70]) (overhead_threshold default_config) \<and>
     (\<exists>idx. direction_idx self (float32_tensor [0, 70, 70]) (float32_tensor [0, 0, 170])
              (float32_tensor [1, 1, 1]) = Inr idx \<and>
        direction2idx self ''overhead'' = Some (idx ! 2))"
proof -
  obtain self where
    s: "configure ascii_lower exact_result (\<lambda>s. s) default_config example_library = Inr self"
    using default_configured by blast
  have h: "entries (float32_tensor [0, 70, 70]) ! 2
      > of_scalar (float32_tensor [0, 70, 70]) (overhead_threshold default_config)"
    by code_simp
  have l: "length (entries (float32_tensor [0, 0, 170])) =
      length (entries (float32_tensor [0, 70, 70]))"
    "2 < length (entries (float32_tensor [0, 70, 70]))"
    by (simp_all add: float32_tensor_def)
  have e: "entries (float32_tensor [0, 70, 70]) ! 2 = 70"
    by (simp add: float32_tensor_def)
  from overhead_direction[OF s l h, of "float32_tensor [1, 1, 1]"]
  have "\<exists>idx. direction_idx self (float32_tensor [0, 70, 70]) (float32_tensor [0, 0, 170])
              (float32_tensor [1, 1, 1]) = Inr idx \<and>
        direction2idx self ''overhead'' = Some (idx ! 2)"
    by auto
  with s h show ?thesis unfolding e by blast
qed

text \<open>
  Claim C10. After \<open>configure\<close>, for every batch, every direction index that the loop of
  \<open>__call__\<close> produces is below the number of directions, both gathers from the
  per-direction embeddings succeed, and \<open>__call__\<close> never fails with an index out of
  range. (With as many azimuths as elevations the loop does produce the indices; with
  different lengths it fails on the shape of a mask, which is another error.)
\<close>

theorem direction_idx_in_range:
  assumes "configure lower rnd enc c library = Inr self"
  shows "(\<forall>idx. direction_idx self ele azi dis = Inr idx \<longrightarrow>
            list_all (\<lambda>i. i < length (directions self)) idx \<and>
            gather (text_embeddings_vd self) idx = Inr (map (\<lambda>i. text_embeddings_vd self ! i) idx) \<and>
            gather (uncond_text_embeddings_vd self) idx =
              Inr (map (\<lambda>i. uncond_text_embeddings_vd self ! i) idx)) \<and>
         (length (entries azi) = length (entries ele) \<longrightarrow>
            (\<exists>idx. direction_idx self ele azi dis = Inr idx)) \<and>
         call_embeddings self ele azi dis \<noteq> Inl IndexOutOfRange \<and>
         call self ele azi dis \<noteq> Inl IndexOutOfRange"
proof -
  have len: "length (directions self) = 4"
    using configure_fields(6)[OF assms] by simp
  have a: "list_all (\<lambda>i. i < length (directions self)) idx \<and>
      gather (text_embeddings_vd self) idx = Inr (map (\<lambda>i. text_embeddings_vd self ! i) idx) \<and>
      gather (uncond_text_embeddings_vd self) idx =
        Inr (map (\<lambda>i. uncond_text_embeddings_vd self ! i) idx)"
    if "direction_idx self ele azi dis = Inr idx" for idx
  proof -
    from that have "idx = map2 (direction_of_pose rnd c (of_scalar ele) (of_scalar azi))
        (entries ele) (entries azi)"
      by (simp add: direction_idx_configured[OF assms] split: if_splits)
    then have "list_all (\<lambda>i. i < 4) idx"
      using list_all_direction_of_pose by simp
    then show ?thesis
      using len configure_fields(8,9)[OF assms] by (simp add: gather_def)
  qed
  have b: "length (entries azi) = length (entries ele) \<longrightarrow>
      (\<exists>idx. direction_idx self ele azi dis = Inr idx)"
    by (simp add: direction_idx_configured[OF assms])
  have c: "call_embeddings self ele azi dis \<noteq> Inl IndexOutOfRange"
  proof (cases "view_dependent_prompting c")
    case True
    show ?thesis
    proof (cases "length (entries azi) = length (entries ele)")
      case True
      with call_embeddings_vd[OF assms \<open>view_dependent_prompting c\<close> True] show ?thesis by simp
    next
      case False
      with call_embeddings_vd_mismatch[OF assms \<open>view_dependent_prompting c\<close> False]
      show ?thesis by simp
    qed
  next
    case False
    with call_embeddings_base[OF assms False] show ?thesis by simp
  qed
  then have d: "call self ele azi dis \<noteq> Inl IndexOutOfRange"
    by (auto simp: call_def split: sum.splits)
  from a b c d show ?thesis by blast
qed

theorem direction_idx_in_range_witness:
  "\<exists>self. configure ascii_lower exact_result (\<lambda>s. s) default_config example_library = Inr self \<and>
     (\<exists>idx. direction_idx self (float32_tensor [0, 0, 70, 0]) (float32_tensor [0, 170, 0, 90])
              (float32_tensor [1, 1, 1, 1]) = Inr idx \<and>
        list_all (\<lambda>i. i < length (directions self)) idx \<and>
        gather (text_embeddings_vd self) idx = Inr (map (\<lambda>i. text_embeddings_vd self ! i) idx)) \<and>
     call self (float32_tensor [0, 0, 70, 0]) (float32_tensor [0, 170, 0, 90])
       (float32_tensor [1, 1, 1, 1]) \<noteq> Inl IndexOutOfRange"
proof -
  obtain self where
    s: "configure ascii_lower exact_result (\<lambda>s. s) default_config example_library = Inr self"
    using default_configured by blast
  have l: "length (entries (float32_tensor [0, 170, 0, 90])) =
      length (entries (float32_tensor [0, 0, 70, 0]))"
    by (simp add: float32_tensor_def)
  from direction_idx_in_range[OF s, of "float32_tensor [0, 0, 70, 0]"
      "float32_tensor [0, 170, 0, 90]" "float32_tensor [1, 1, 1, 1]"] l s
  show ?thesis by blast
qed

subsection \<open>The direction table\<close>

text \<open>
  Claim C9. After \<open>configure\<close>, in either mode, and after any sequence of calls, which
  leave the object as it was: the per-direction conditional and unconditional embeddings
  have as many rows as the table has directions, and \<open>direction2idx\<close> is defined exactly
  on the names of the table and is a bijection from them onto the row indices, sending
  the name of the \<open>i\<close>-th direction to \<open>i\<close>.
\<close>

theorem direction_table_invariant:
  assumes "configure lower rnd enc c library = Inr self0"
  shows "run_calls self0 batches = self0 \<and>
         length (text_embeddings_vd (run_calls self0 batches)) =
           length (directions (run_calls self0 batches)) \<and>
         length (uncond_text_embeddings_vd (run_calls self0 batches)) =
           length (directions (run_calls self0 batches)) \<and>
         dom (direction2idx (run_calls self0 batches)) =
           set (map d_name (directions (run_calls self0 batches))) \<and>
         bij_betw (\<lambda>n. the (direction2idx (run_calls self0 batches) n))
           (set (map d_name (directions (run_calls self0 batches))))
           {..<length (directions (run_calls self0 batches))} \<and>
         (\<forall>i<length (directions (run_calls self0 batches)).
            direction2idx (run_calls self0 batches)
              (d_name (directions (run_calls self0 batches) ! i)) = Some i)"
proof -
  have len: "length (directions self0) = 4"
    using configure_fields(6)[OF assms] by simp
  have names: "map d_name (directions self0) = [''side'', ''front'', ''back'', ''overhead'']"
    by (rule configure_names[OF assms])
  have d2i: "direction2idx self0 = [''side'' \<mapsto> 0, ''front'' \<mapsto> 1, ''back'' \<mapsto> 2, ''overhead'' \<mapsto> 3]"
    by (rule configure_fields(7)[OF assms])
  have dom: "dom (direction2idx self0) = set (map d_name (directions self0))"
    unfolding names d2i by auto
  have bij: "bij_betw (\<lambda>n. the (direction2idx self0 n)) (set (map d_name (directions self0)))
      {..<length (directions self0)}"
    unfolding names d2i len using table_bijection by simp
  have pos: "direction2idx self0 (d_name (directions self0 ! i)) = Some i"
    if "i < length (directions self0)" for i
  proof -
    from that have "d_name (directions self0 ! i) = map d_name (directions self0) ! i"
      by simp
    moreover from that len have "i = 0 \<or> i = 1 \<or> i = 2 \<or> i = 3" by auto
    ultimately show ?thesis unfolding names d2i by auto
  qed
  show ?thesis
    unfolding run_calls_same
    using len configure_fields(8,9)[OF assms] dom bij pos by simp
qed

theorem direction_table_invariant_witness:
  "\<exists>self. configure ascii_lower exact_result (\<lambda>s. s) default_config example_library = Inr self \<and>
     run_calls self
       [(float32_tensor [0, 70], float32_tensor [0, 170], float32_tensor [1, 1]),
        (float64_tensor [0], float64_tensor [0], float64_tensor [1])] = self \<and>
     length (text_embeddings_vd self) = length (directions self) \<and>
     length (uncond_text_embeddings_vd self) = length (directions self) \<and>
     dom (direction2idx self) = set (map d_name (directions self)) \<and>
     bij_betw (\<lambda>n. the (direction2idx self n)) (set (map d_name (directions self)))
       {..<length (directions self)}"
proof -
  obtain self where
    s: "configure ascii_lower exact_result (\<lambda>s. s) default_config example_library = Inr self"
    using default_configured by blast
  from direction_table_invariant[OF s,
      of "[(float32_tensor [0, 70], float32_tensor [0, 170], float32_tensor [1, 1]),
           (float64_tensor [0], float64_tensor [0], float64_tensor [1])]"]
  have "run_calls self
       [(float32_tensor [0, 70], float32_tensor [0, 170], float32_tensor [1, 1]),
        (float64_tensor [0], float64_tensor [0], float64_tensor [1])] = self \<and>
     length (text_embeddings_vd self) = length (directions self) \<and>
     length (uncond_text_embeddings_vd self) = length (directions self) \<and>
     dom (direction2idx self) = set (map d_name (directions self)) \<and>
     bij_betw (\<lambda>n. the (direction2idx self n)) (set (map d_name (directions self)))
       {..<length (directions self)}"
    by metis
  with s show ?thesis by blast
qed

end
